theory Spec2Isabelle
  imports Complex_Main
begin

section \<open>The vehicle-detection dashboard of \<^verbatim>\<open>app.js\<close>\<close>

text \<open>
  The dashboard part of \<^verbatim>\<open>app.js\<close> keeps three script variables
  (\<^verbatim>\<open>updateInterval\<close>, \<^verbatim>\<open>isConnected\<close>, \<^verbatim>\<open>currentPeriod\<close>), two touch
  coordinates, one Chart.js object and a handful of DOM nodes that it looks up by id.
  The model below is a shallow embedding: the script variables, the browser's table of
  timers and the parts of the DOM that the script reads or writes are the fields of one
  record \<open>page\<close>; every function of the script becomes a function on \<open>page\<close>.

  Conventions.
  \<^item> A JavaScript number is a \<open>real\<close>; the script only compares numbers and stores them.
    Lengths and timer handles are natural numbers.
  \<^item> A string is a \<open>string\<close>; a glyph outside ASCII is the list of its UTF-8 bytes.
  \<^item> A function that can throw returns \<open>exn option \<times> page\<close>: the exception, if any, and
    the page as the statements executed before the throw have left it.
  \<^item> An \<^verbatim>\<open>async\<close> function is modelled by its effect once all its awaits have settled,
    with the outcome of each awaited request as an argument. In \<^verbatim>\<open>updateData\<close> every
    write follows the last \<^verbatim>\<open>await\<close>, so this is the effect of one uninterrupted run.
  \<^item> The HTML page is not part of the sources. Nodes looked up by id are taken to exist.
    The nodes found by selector (\<^verbatim>\<open>.chart-control-btn\<close>, \<^verbatim>\<open>[data-period=...]\<close>)
    are a field of the page, so that a missing node is a \<open>TypeError\<close> of the model.
\<close>

type_synonym number = real

datatype exn = NetworkError | HttpError | SyntaxError | TypeError

subsection \<open>Glyphs and number rendering\<close>

definition glyph_bar_chart :: string where
  "glyph_bar_chart = [CHR 0xF0, CHR 0x9F, CHR 0x93, CHR 0x8A]"

definition glyph_black_circle :: string where
  "glyph_black_circle = [CHR 0xE2, CHR 0x97, CHR 0x8F]"

definition glyph_pause :: string where
  "glyph_pause = [CHR 0xE2, CHR 0x8F, CHR 0xB8]"

definition glyph_car :: string where
  "glyph_car = [CHR 0xF0, CHR 0x9F, CHR 0x9A, CHR 0x97]"

definition glyph_motorcycle :: string where
  "glyph_motorcycle = [CHR 0xF0, CHR 0x9F, CHR 0x8F, CHR 0x8D, CHR 0xEF, CHR 0xB8, CHR 0x8F]"

definition glyph_cross_mark :: string where
  "glyph_cross_mark = [CHR 0xE2, CHR 0x9D, CHR 0x8C]"

definition glyph_counterclockwise :: string where
  "glyph_counterclockwise = [CHR 0xF0, CHR 0x9F, CHR 0x94, CHR 0x84]"

definition glyph_repeat :: string where
  "glyph_repeat = [CHR 0xF0, CHR 0x9F, CHR 0x94, CHR 0x81]"

definition digit :: "nat \<Rightarrow> char" where
  "digit d = char_of (48 + d)"

text \<open>Decimal rendering of a natural number, as a template literal renders a length.\<close>

fun show_nat :: "nat \<Rightarrow> string" where
  "show_nat n = (if n < 10 then [digit n] else show_nat (n div 10) @ [digit (n mod 10)])"

declare show_nat.simps [simp del]

definition show_int :: "int \<Rightarrow> string" where
  "show_int i = (if i < 0 then CHR ''-'' # show_nat (nat (- i)) else show_nat (nat i))"

text \<open>
  \<^verbatim>\<open>period.charAt(0).toUpperCase() + period.slice(1)\<close>, for the ASCII letters.
\<close>

definition toUpperCase :: "char \<Rightarrow> char" where
  "toUpperCase c =
     (let n = (of_char c :: nat) in if 97 \<le> n \<and> n \<le> 122 then char_of (n - 32) else c)"

fun capitalize :: "string \<Rightarrow> string" where
  "capitalize [] = []"
| "capitalize (c # cs) = toUpperCase c # cs"

subsection \<open>Payloads of the backend\<close>

record series =
  labels :: "string list"
  data :: "number list"

record stats_payload =
  is_running :: bool
  analytics :: "(string \<times> series) list option"

record detected_object =
  obj_id :: int
  vehicle_type :: string
  confidence_score :: number
  detected_at :: string
  status :: string

text \<open>
  \<open>objects = None\<close> is a payload without an \<^verbatim>\<open>objects\<close> array: reading its
  \<^verbatim>\<open>length\<close> throws.
\<close>

record objects_payload =
  active_objects :: int
  objects :: "detected_object list option"

record command_result =
  success :: bool
  message :: "string option"

text \<open>
  The parsed body of \<^verbatim>\<open>/health\<close>. \<open>HealthNull\<close> is the JSON value \<^verbatim>\<open>null\<close>, on
  which reading \<^verbatim>\<open>status\<close> throws. \<open>HealthValue st\<close> is any other JSON value;
  \<open>st\<close> is its \<^verbatim>\<open>status\<close> property when that is a string, and \<open>None\<close> when the
  value has no such property or one that is not a string.
\<close>

datatype health_payload = HealthNull | HealthValue "string option"

text \<open>
  A \<^verbatim>\<open>fetch\<close> either rejects (network failure) or resolves to a response with its
  \<^verbatim>\<open>ok\<close> flag; \<open>json = None\<close> is a body that \<^verbatim>\<open>response.json()\<close> rejects.
\<close>

datatype 'a response = Response (ok: bool) (json: "'a option")

datatype 'a fetched = Rejected | Resolved "'a response"

subsection \<open>The page\<close>

record table_row =
  row_id :: int
  row_vehicle_class :: string
  row_icon :: string
  row_vehicle_type :: string
  row_confidence_class :: string
  row_confidence_score :: number
  row_detected_at :: string
  row_status_class :: string
  row_status :: string

record element =
  classList :: "string list"
  data_period :: "string option"

record button =
  disabled :: bool
  btn_classList :: "string list"
  innerHTML :: string

record notification =
  note_message :: string
  note_type :: string
  exiting :: bool

datatype task = UpdateData | HealthCheck | WelcomeNotification

record interval =
  handle :: nat
  every_ms :: nat
  callback :: task

record page =
  updateInterval :: "nat option"
  isConnected :: bool
  currentPeriod :: string
  touchStartX :: number
  touchEndX :: number
  intervals :: "interval list"
  next_handle :: nat
  timeouts :: "(nat \<times> task) list"
  connection_status :: string
  active_objects_text :: string
  last_update :: string
  detection_status_text :: string
  detection_status_class :: string
  status_text :: string
  objects_table_body :: "table_row list"
  no_objects_display :: string
  object_count_badge :: string
  chart_labels :: "string list"
  chart_data :: "number list"
  chart_backgroundColor :: string
  chart_borderColor :: string
  chart_updates :: "string option list"
  elements :: "element list"
  reset_btn :: button
  refresh_btn :: button
  notifications :: "notification list"

subsection \<open>Sample data and colour themes\<close>

text \<open>
  \<^verbatim>\<open>generateSampleData\<close>: the literal object, then \<^verbatim>\<open>data[period] || data.day\<close>.
  (Property names that an object literal inherits, such as \<^verbatim>\<open>constructor\<close>, are not
  modelled; the script never passes one.)
\<close>

definition sample_day :: series where
  "sample_day =
     \<lparr>labels = [''00:00'', ''03:00'', ''06:00'', ''09:00'', ''12:00'', ''15:00'', ''18:00'', ''21:00''],
      data = [12, 8, 25, 45, 38, 52, 68, 42]\<rparr>"

definition sample_week :: series where
  "sample_week =
     \<lparr>labels = [''Monday'', ''Tuesday'', ''Wednesday'', ''Thursday'', ''Friday'', ''Saturday'', ''Sunday''],
      data = [234, 187, 298, 345, 412, 389, 267]\<rparr>"

definition sample_month :: series where
  "sample_month =
     \<lparr>labels = [''Week 1'', ''Week 2'', ''Week 3'', ''Week 4''],
      data = [1250, 1434, 1123, 1567]\<rparr>"

definition sample_table :: "(string \<times> series) list" where
  "sample_table = [(''day'', sample_day), (''week'', sample_week), (''month'', sample_month)]"

definition generateSampleData :: "string \<Rightarrow> series" where
  "generateSampleData period =
     (case map_of sample_table period of
        Some d \<Rightarrow> d
      | None \<Rightarrow> sample_day)"

record theme =
  background :: string
  border :: string

definition colorThemes :: "(string \<times> theme) list" where
  "colorThemes =
    [(''day'', \<lparr>background = ''rgba(102, 126, 234, 0.1)'', border = ''#667eea''\<rparr>),
     (''week'', \<lparr>background = ''rgba(240, 147, 251, 0.1)'', border = ''#f093fb''\<rparr>),
     (''month'', \<lparr>background = ''rgba(79, 172, 254, 0.1)'', border = ''#4facfe''\<rparr>)]"

subsection \<open>Notifications and the connection indicator\<close>

text \<open>
  \<^verbatim>\<open>showNotification\<close> starts the exit animation of every notification on the page
  and appends the new one. The timeouts that later detach a notification only remove
  nodes; the model describes the page when the function returns and leaves them out.
\<close>

definition showNotification :: "string \<Rightarrow> string \<Rightarrow> page \<Rightarrow> page" where
  "showNotification msg type s =
     s\<lparr>notifications :=
         map (\<lambda>n. n\<lparr>exiting := True\<rparr>) (notifications s)
         @ [\<lparr>note_message = msg, note_type = type, exiting = False\<rparr>]\<rparr>"

definition updateConnectionStatus :: "bool \<Rightarrow> page \<Rightarrow> page" where
  "updateConnectionStatus conn s =
     (if conn
      then s\<lparr>connection_status := ''status-indicator connected'', isConnected := True\<rparr>
      else s\<lparr>connection_status := ''status-indicator'', isConnected := False\<rparr>)"

subsection \<open>The objects table\<close>

definition confidenceClass :: "number \<Rightarrow> string" where
  "confidenceClass score =
     (if score \<ge> 80 then ''confidence-high''
      else if score \<ge> 60 then ''confidence-medium''
      else ''confidence-low'')"

text \<open>The row that the body of the \<^verbatim>\<open>forEach\<close> builds for one object.\<close>

definition render_row :: "detected_object \<Rightarrow> table_row" where
  "render_row obj =
     \<lparr>row_id = obj_id obj,
      row_vehicle_class =
        (if vehicle_type obj = ''car'' then ''vehicle-car'' else ''vehicle-motorcycle''),
      row_icon = (if vehicle_type obj = ''car'' then glyph_car else glyph_motorcycle),
      row_vehicle_type = vehicle_type obj,
      row_confidence_class = confidenceClass (confidence_score obj),
      row_confidence_score = confidence_score obj,
      row_detected_at = detected_at obj,
      row_status_class =
        (if status obj = ''Active'' then ''status-active'' else ''status-expired''),
      row_status = status obj\<rparr>"

definition updateObjectsTable :: "detected_object list option \<Rightarrow> page \<Rightarrow> exn option \<times> page" where
  "updateObjectsTable objs s =
     (case objs of
        None \<Rightarrow> (Some TypeError, s)
      | Some os \<Rightarrow>
          let s1 = s\<lparr>object_count_badge := show_nat (length os) @ '' objects''\<rparr> in
          if length os = 0
          then (None, s1\<lparr>no_objects_display := ''block'', objects_table_body := []\<rparr>)
          else
            let s2 = s1\<lparr>no_objects_display := ''none''\<rparr>;
                s3 = s2\<lparr>objects_table_body := []\<rparr>
            in (None, fold (\<lambda>obj t. t\<lparr>objects_table_body :=
                                          objects_table_body t @ [render_row obj]\<rparr>) os s3))"

subsection \<open>The poll cycle\<close>

text \<open>
  The body of the \<^verbatim>\<open>try\<close> of \<^verbatim>\<open>updateData\<close>. \<open>now\<close> is the text of
  \<^verbatim>\<open>new Date().toLocaleTimeString()\<close>.
\<close>

definition updateData_try ::
  "stats_payload fetched \<Rightarrow> objects_payload fetched \<Rightarrow> string \<Rightarrow> page \<Rightarrow> exn option \<times> page" where
  "updateData_try fs fo now s =
     (case (fs, fo) of
        (Resolved statsResponse, Resolved objectsResponse) \<Rightarrow>
          if \<not> ok statsResponse \<or> \<not> ok objectsResponse then (Some HttpError, s)
          else
            (case json statsResponse of
               None \<Rightarrow> (Some SyntaxError, s)
             | Some statsData \<Rightarrow>
                 (case json objectsResponse of
                    None \<Rightarrow> (Some SyntaxError, s)
                  | Some objectsData \<Rightarrow>
                      let s1 = updateConnectionStatus True s;
                          s2 = s1\<lparr>active_objects_text := show_int (active_objects objectsData),
                                  last_update := now\<rparr>;
                          s3 = (if is_running statsData
                                then s2\<lparr>detection_status_text := glyph_black_circle,
                                        detection_status_class := ''stat-value status-running'',
                                        status_text := ''Running''\<rparr>
                                else s2\<lparr>detection_status_text := glyph_pause,
                                        detection_status_class := ''stat-value status-stopped'',
                                        status_text := ''Stopped''\<rparr>)
                      in (case updateObjectsTable (objects objectsData) s3 of
                            (Some e, s4) \<Rightarrow> (Some e, s4)
                          | (None, s4) \<Rightarrow>
                              (case analytics statsData of
                                 None \<Rightarrow> (None, s4)
                               | Some a \<Rightarrow>
                                   (case map_of a (currentPeriod s4) of
                                      None \<Rightarrow> (None, s4)
                                    | Some analyticsData \<Rightarrow>
                                        (None, s4\<lparr>chart_labels := labels analyticsData,
                                                  chart_data := data analyticsData,
                                                  chart_updates :=
                                                    chart_updates s4 @ [Some ''none'']\<rparr>))))))
      | _ \<Rightarrow> (Some NetworkError, s))"

text \<open>\<^verbatim>\<open>updateData\<close>: the \<^verbatim>\<open>try\<close> and its \<^verbatim>\<open>catch\<close>.\<close>

definition updateData ::
  "stats_payload fetched \<Rightarrow> objects_payload fetched \<Rightarrow> string \<Rightarrow> page \<Rightarrow> exn option \<times> page" where
  "updateData fs fo now s =
     (case updateData_try fs fo now s of
        (None, s') \<Rightarrow> (None, s')
      | (Some error, s') \<Rightarrow> (None, updateConnectionStatus False s'))"

subsection \<open>Changing the period\<close>

definition has_class :: "string \<Rightarrow> element \<Rightarrow> bool" where
  "has_class c e = (c \<in> set (classList e))"

definition classList_remove :: "string \<Rightarrow> element \<Rightarrow> element" where
  "classList_remove c e = e\<lparr>classList := removeAll c (classList e)\<rparr>"

definition classList_add :: "string \<Rightarrow> element \<Rightarrow> element" where
  "classList_add c e =
     (if c \<in> set (classList e) then e else e\<lparr>classList := classList e @ [c]\<rparr>)"

text \<open>
  \<^verbatim>\<open>document.querySelector(`[data-period="${period}"]`)\<close>: the position of the first
  element, in document order, whose \<^verbatim>\<open>data-period\<close> attribute is \<open>period\<close>.
\<close>

fun querySelector_period :: "string \<Rightarrow> element list \<Rightarrow> nat option" where
  "querySelector_period period [] = None"
| "querySelector_period period (e # es) =
     (if data_period e = Some period then Some 0
      else map_option Suc (querySelector_period period es))"

definition changePeriod :: "string \<Rightarrow> page \<Rightarrow> exn option \<times> page" where
  "changePeriod period s =
     (let s1 = s\<lparr>currentPeriod := period\<rparr>;
          s2 = s1\<lparr>elements :=
                    map (\<lambda>btn. if has_class ''chart-control-btn'' btn
                                then classList_remove ''active'' btn else btn)
                        (elements s1)\<rparr>
      in (case querySelector_period period (elements s2) of
            None \<Rightarrow> (Some TypeError, s2)
          | Some i \<Rightarrow>
              (let s3 = s2\<lparr>elements :=
                           (elements s2)[i := classList_add ''active'' (elements s2 ! i)]\<rparr>
               in (case map_of colorThemes period of
                     None \<Rightarrow> (Some TypeError, s3)
                   | Some theme \<Rightarrow>
                       (let s4 = s3\<lparr>chart_backgroundColor := background theme,
                                      chart_borderColor := border theme\<rparr>;
                            sampleData = generateSampleData period;
                            s5 = s4\<lparr>chart_labels := labels sampleData,
                                      chart_data := data sampleData\<rparr>;
                            s6 = s5\<lparr>chart_updates := chart_updates s5 @ [Some ''active'']\<rparr>;
                            periodText = capitalize period
                        in (None,
                            showNotification
                              (glyph_bar_chart @ '' Switched to '' @ periodText @ '' view'')
                              ''info'' s6))))))"

subsection \<open>Touch gestures\<close>

definition periods :: "string list" where
  "periods = [''day'', ''week'', ''month'']"

text \<open>\<^verbatim>\<open>Array.prototype.indexOf\<close>: the first position, or \<open>-1\<close>.\<close>

fun indexOf :: "string list \<Rightarrow> string \<Rightarrow> int" where
  "indexOf [] x = - 1"
| "indexOf (y # ys) x = (if y = x then 0 else let i = indexOf ys x in if i < 0 then - 1 else i + 1)"

text \<open>
  Reading an array at an index: out of range the script reads \<^verbatim>\<open>undefined\<close>, which
  every later use (a template literal, a property name) turns into the text
  \<^verbatim>\<open>undefined\<close>.
\<close>

definition at_index :: "string list \<Rightarrow> int \<Rightarrow> string" where
  "at_index xs i = (if 0 \<le> i \<and> i < int (length xs) then xs ! nat i else ''undefined'')"

definition handleGesture :: "page \<Rightarrow> exn option \<times> page" where
  "handleGesture s =
     (let threshold = 100;
          diff = touchStartX s - touchEndX s
      in if \<bar>diff\<bar> > threshold then
           if diff > 0 then
             let currentIndex = indexOf periods (currentPeriod s);
                 nextIndex = (currentIndex + 1) mod int (length periods)
             in changePeriod (at_index periods nextIndex) s
           else
             let currentIndex = indexOf periods (currentPeriod s);
                 prevIndex = (if currentIndex = 0 then int (length periods) - 1
                              else currentIndex - 1)
             in changePeriod (at_index periods prevIndex) s
         else (None, s))"

text \<open>The two touch listeners; \<open>x\<close> is \<^verbatim>\<open>e.changedTouches[0].screenX\<close>.\<close>

definition touchstart :: "number \<Rightarrow> page \<Rightarrow> page" where
  "touchstart x s = s\<lparr>touchStartX := x\<rparr>"

definition touchend :: "number \<Rightarrow> page \<Rightarrow> exn option \<times> page" where
  "touchend x s = handleGesture (s\<lparr>touchEndX := x\<rparr>)"

text \<open>One swipe: a touch that starts at \<open>x0\<close> and ends at \<open>x1\<close>.\<close>

definition swipe :: "number \<Rightarrow> number \<Rightarrow> page \<Rightarrow> page" where
  "swipe x0 x1 s = snd (touchend x1 (touchstart x0 s))"

subsection \<open>Health check\<close>

text \<open>
  \<^verbatim>\<open>healthCheck\<close> returns its boolean and the page. It does not look at
  \<^verbatim>\<open>response.ok\<close>. Everything that throws inside its \<^verbatim>\<open>try\<close> ends in the
  \<^verbatim>\<open>catch\<close>: a rejected \<^verbatim>\<open>fetch\<close>, a body that \<^verbatim>\<open>response.json()\<close> rejects,
  and \<^verbatim>\<open>data.status\<close> on a body that is \<^verbatim>\<open>null\<close>.
\<close>

definition healthCheck :: "health_payload fetched \<Rightarrow> page \<Rightarrow> bool \<times> page" where
  "healthCheck f s =
     (case f of
        Rejected \<Rightarrow> (False, updateConnectionStatus False s)
      | Resolved response \<Rightarrow>
          (case json response of
             None \<Rightarrow> (False, updateConnectionStatus False s)
           | Some HealthNull \<Rightarrow> (False, updateConnectionStatus False s)
           | Some (HealthValue st) \<Rightarrow>
               if st = Some ''healthy''
               then (True, updateConnectionStatus True s)
               else (False, s)))"

subsection \<open>Reset and refresh\<close>

definition classes_add :: "string \<Rightarrow> string list \<Rightarrow> string list" where
  "classes_add c cs = (if c \<in> set cs then cs else cs @ [c])"

definition msg_reset_ok :: string where
  "msg_reset_ok = glyph_counterclockwise @ '' All data reset successfully!''"

definition msg_reset_failed :: string where
  "msg_reset_failed = glyph_cross_mark @ '' Failed to reset data''"

definition msg_refresh_ok :: string where
  "msg_refresh_ok = glyph_repeat @ '' Data refreshed successfully!''"

definition msg_refresh_failed :: string where
  "msg_refresh_failed = glyph_cross_mark @ '' Failed to refresh data''"

text \<open>The body of the \<^verbatim>\<open>try\<close> of \<^verbatim>\<open>resetCount\<close>, after the button has been disabled.\<close>

definition resetCount_try :: "command_result fetched \<Rightarrow> page \<Rightarrow> exn option \<times> page" where
  "resetCount_try f s =
     (case f of
        Rejected \<Rightarrow> (Some NetworkError, s)
      | Resolved response \<Rightarrow>
          (case json response of
             None \<Rightarrow> (Some SyntaxError, s)
           | Some result \<Rightarrow>
               if success result then
                 let s1 = showNotification msg_reset_ok ''success'' s;
                     sampleData = generateSampleData (currentPeriod s1);
                     s2 = s1\<lparr>chart_labels := labels sampleData,
                               chart_data := data sampleData\<rparr>;
                     s3 = s2\<lparr>chart_updates := chart_updates s2 @ [None]\<rparr>
                 in updateObjectsTable (Some []) s3
               else (None, showNotification msg_reset_failed ''error'' s)))"

text \<open>
  \<^verbatim>\<open>resetCount\<close>: \<open>confirmed\<close> is the answer to the \<^verbatim>\<open>confirm\<close> dialog. The
  \<^verbatim>\<open>finally\<close> restores the button and schedules one poll 500 ms later.
\<close>

definition resetCount :: "bool \<Rightarrow> command_result fetched \<Rightarrow> page \<Rightarrow> page" where
  "resetCount confirmed f s =
     (let button = reset_btn s;
          originalText = innerHTML button
      in if \<not> confirmed then s
         else
           let s1 = s\<lparr>reset_btn :=
                       \<lparr>disabled = True,
                        btn_classList = classes_add ''loading'' (btn_classList button),
                        innerHTML = ''Resetting...''\<rparr>\<rparr>;
               s2 = (case resetCount_try f s1 of
                       (None, t) \<Rightarrow> t
                     | (Some error, t) \<Rightarrow> showNotification msg_reset_failed ''error'' t);
               s3 = s2\<lparr>reset_btn :=
                        \<lparr>disabled = False,
                         btn_classList = removeAll ''loading'' (btn_classList (reset_btn s2)),
                         innerHTML = originalText\<rparr>\<rparr>
           in s3\<lparr>timeouts := timeouts s3 @ [(500, UpdateData)]\<rparr>)"

text \<open>
  \<^verbatim>\<open>refreshData\<close> awaits \<^verbatim>\<open>updateData\<close>; its \<^verbatim>\<open>catch\<close> runs when that promise
  rejects, that is, when \<open>updateData\<close> returns an exception.
\<close>

definition refreshData ::
  "stats_payload fetched \<Rightarrow> objects_payload fetched \<Rightarrow> string \<Rightarrow> page \<Rightarrow> page" where
  "refreshData fs fo now s =
     (let button = refresh_btn s;
          originalText = innerHTML button;
          s1 = s\<lparr>refresh_btn :=
                   \<lparr>disabled = True,
                    btn_classList = classes_add ''loading'' (btn_classList button),
                    innerHTML = ''Refreshing...''\<rparr>\<rparr>;
          s2 = (case updateData fs fo now s1 of
                  (None, t) \<Rightarrow> showNotification msg_refresh_ok ''success'' t
                | (Some error, t) \<Rightarrow> showNotification msg_refresh_failed ''error'' t)
      in s2\<lparr>refresh_btn :=
               \<lparr>disabled = False,
                btn_classList = removeAll ''loading'' (btn_classList (refresh_btn s2)),
                innerHTML = originalText\<rparr>\<rparr>)"

subsection \<open>Timers and page visibility\<close>

text \<open>
  The browser's table of repeating timers. \<^verbatim>\<open>setInterval\<close> returns a fresh handle;
  \<^verbatim>\<open>clearInterval\<close> removes the timer with that handle, if there is one.
\<close>

definition setInterval :: "task \<Rightarrow> nat \<Rightarrow> page \<Rightarrow> nat \<times> page" where
  "setInterval cb ms s =
     (next_handle s,
      s\<lparr>intervals := intervals s @ [\<lparr>handle = next_handle s, every_ms = ms, callback = cb\<rparr>],
        next_handle := Suc (next_handle s)\<rparr>)"

definition clearInterval :: "nat \<Rightarrow> page \<Rightarrow> page" where
  "clearInterval h s = s\<lparr>intervals := filter (\<lambda>t. handle t \<noteq> h) (intervals s)\<rparr>"

text \<open>\<^verbatim>\<open>if (updateInterval) clearInterval(updateInterval)\<close>: \<^verbatim>\<open>undefined\<close> and 0 are falsy.\<close>

definition clear_updateInterval :: "page \<Rightarrow> page" where
  "clear_updateInterval s =
     (case updateInterval s of
        None \<Rightarrow> s
      | Some h \<Rightarrow> if h \<noteq> 0 then clearInterval h s else s)"

definition startAutoReconnect :: "page \<Rightarrow> page" where
  "startAutoReconnect s =
     (let s1 = clear_updateInterval s;
          (h, s2) = setInterval UpdateData 3000 s1
      in s2\<lparr>updateInterval := Some h\<rparr>)"

text \<open>
  The \<^verbatim>\<open>visibilitychange\<close> listener; \<open>hidden\<close> is \<^verbatim>\<open>document.hidden\<close>. It returns
  the calls it starts without awaiting them, and the page.
\<close>

definition visibilitychange :: "bool \<Rightarrow> page \<Rightarrow> task list \<times> page" where
  "visibilitychange hidden s =
     (if hidden then ([], clear_updateInterval s)
      else ([UpdateData], startAutoReconnect s))"

text \<open>
  \<^verbatim>\<open>initialize\<close>, up to the registration of its listeners: the exception of
  \<^verbatim>\<open>changePeriod('day')\<close> if it throws, the calls started, and the page.
\<close>

definition initialize :: "page \<Rightarrow> exn option \<times> task list \<times> page" where
  "initialize s =
     (case changePeriod ''day'' s of
        (Some e, s1) \<Rightarrow> (Some e, [], s1)
      | (None, s1) \<Rightarrow>
          let s2 = startAutoReconnect s1;
              (h, s3) = setInterval HealthCheck 15000 s2
          in (None, [UpdateData], s3\<lparr>timeouts := timeouts s3 @ [(500, WelcomeNotification)]\<rparr>))"

text \<open>A run of visibility changes, each given by the value of \<^verbatim>\<open>document.hidden\<close>.\<close>

fun visibility_changes :: "bool list \<Rightarrow> page \<Rightarrow> page" where
  "visibility_changes [] s = s"
| "visibility_changes (hidden # hs) s = visibility_changes hs (snd (visibilitychange hidden s))"

subsection \<open>Example inputs\<close>

text \<open>
  A page for the examples: the script's initial values of its variables, an empty chart,
  an empty table, and one control button for each period.
\<close>

definition example_page :: page where
  "example_page =
     \<lparr>updateInterval = None, isConnected = True, currentPeriod = ''day'',
      touchStartX = 0, touchEndX = 0,
      intervals = [], next_handle = 1, timeouts = [],
      connection_status = ''status-indicator'',
      active_objects_text = ''0'', last_update = ''--'',
      detection_status_text = glyph_pause,
      detection_status_class = ''stat-value status-stopped'',
      status_text = ''Stopped'',
      objects_table_body = [], no_objects_display = ''block'',
      object_count_badge = ''0 objects'',
      chart_labels = [], chart_data = [],
      chart_backgroundColor = ''rgba(102, 126, 234, 0.1)'', chart_borderColor = ''#667eea'',
      chart_updates = [],
      elements =
        [\<lparr>classList = [''chart-control-btn'', ''active''], data_period = Some ''day''\<rparr>,
         \<lparr>classList = [''chart-control-btn''], data_period = Some ''week''\<rparr>,
         \<lparr>classList = [''chart-control-btn''], data_period = Some ''month''\<rparr>],
      reset_btn = \<lparr>disabled = False, btn_classList = [''btn''], innerHTML = ''Reset''\<rparr>,
      refresh_btn = \<lparr>disabled = False, btn_classList = [''btn''], innerHTML = ''Refresh''\<rparr>,
      notifications = []\<rparr>"

definition example_objects :: "detected_object list" where
  "example_objects =
     [\<lparr>obj_id = 1, vehicle_type = ''car'', confidence_score = 79,
       detected_at = ''10:15:00'', status = ''Active''\<rparr>,
      \<lparr>obj_id = 2, vehicle_type = ''motorcycle'', confidence_score = 60,
       detected_at = ''10:15:02'', status = ''Expired''\<rparr>,
      \<lparr>obj_id = 3, vehicle_type = ''car'', confidence_score = 80,
       detected_at = ''10:15:04'', status = ''Active''\<rparr>]"

definition example_stats :: "stats_payload fetched" where
  "example_stats =
     Resolved (Response True
       (Some \<lparr>is_running = True,
              analytics = Some [(''day'', \<lparr>labels = [''00:00''], data = [12]\<rparr>)]\<rparr>))"

definition example_detected :: "objects_payload fetched" where
  "example_detected =
     Resolved (Response True (Some \<lparr>active_objects = 2, objects = Some example_objects\<rparr>))"

text \<open>The example page after one successful poll.\<close>

definition polled_page :: page where
  "polled_page = snd (updateData example_stats example_detected ''10:15:05'' example_page)"

text \<open>A request has failed when it was rejected or its response is not \<^verbatim>\<open>ok\<close>.\<close>

definition fetch_failed :: "'a fetched \<Rightarrow> bool" where
  "fetch_failed f = (case f of Rejected \<Rightarrow> True | Resolved r \<Rightarrow> \<not> ok r)"

text \<open>The repeating timers of the page that call a given task.\<close>

definition live :: "task \<Rightarrow> page \<Rightarrow> interval list" where
  "live cb s = filter (\<lambda>t. callback t = cb) (intervals s)"

text \<open>
  What holds of the timers from \<^verbatim>\<open>initialize\<close> on: \<^verbatim>\<open>updateInterval\<close> is a truthy
  handle, every poll timer has that handle, and no health-check timer has it.
\<close>

definition timer_inv :: "page \<Rightarrow> bool" where
  "timer_inv s =
     (0 < next_handle s \<and>
      (case updateInterval s of
         None \<Rightarrow> False
       | Some h \<Rightarrow>
           h \<noteq> 0 \<and>
           (\<forall>t \<in> set (intervals s).
              handle t < next_handle s
              \<and> (callback t = UpdateData \<longrightarrow> handle t = h)
              \<and> (callback t = HealthCheck \<longrightarrow> handle t \<noteq> h))))"

section \<open>Properties\<close>

subsection \<open>Auxiliary facts\<close>

lemma fold_append_rows:
  "fold (\<lambda>obj t. t\<lparr>objects_table_body := objects_table_body t @ [render_row obj]\<rparr>) os s
   = s\<lparr>objects_table_body := objects_table_body s @ map render_row os\<rparr>"
  by (induction os arbitrary: s) simp_all

lemma updateObjectsTable_Some:
  "updateObjectsTable (Some os) s =
     (None, s\<lparr>object_count_badge := show_nat (length os) @ '' objects'',
              no_objects_display := (if os = [] then ''block'' else ''none''),
              objects_table_body := map render_row os\<rparr>)"
  by (simp add: updateObjectsTable_def Let_def fold_append_rows)

lemmas example_defs =
  polled_page_def example_page_def example_stats_def example_detected_def example_objects_def

subsection \<open>The poll cycle\<close>

text \<open>
  C1. If either of the two read requests of a poll cycle fails, by a network error or
  by a response that is not \<^verbatim>\<open>ok\<close>, then \<^verbatim>\<open>updateData\<close> resolves without an
  exception, \<open>isConnected\<close> is false, the connection indicator loses its
  \<^verbatim>\<open>connected\<close> class, and nothing else on the page changes: the table rows, the
  count badge, the chart's labels and values and the detection-status indicator are
  the ones rendered before.
\<close>

theorem updateData_failure_keeps_rendered_state:
  assumes "fetch_failed fs \<or> fetch_failed fo"
  shows "updateData fs fo now s =
           (None, s\<lparr>connection_status := ''status-indicator'', isConnected := False\<rparr>)
         \<and> \<not> isConnected (snd (updateData fs fo now s))
         \<and> objects_table_body (snd (updateData fs fo now s)) = objects_table_body s
         \<and> object_count_badge (snd (updateData fs fo now s)) = object_count_badge s
         \<and> chart_labels (snd (updateData fs fo now s)) = chart_labels s
         \<and> chart_data (snd (updateData fs fo now s)) = chart_data s
         \<and> detection_status_text (snd (updateData fs fo now s)) = detection_status_text s
         \<and> detection_status_class (snd (updateData fs fo now s)) = detection_status_class s
         \<and> status_text (snd (updateData fs fo now s)) = status_text s"
proof -
  have eq: "updateData fs fo now s =
           (None, s\<lparr>connection_status := ''status-indicator'', isConnected := False\<rparr>)"
    using assms
    by (auto simp: updateData_def updateData_try_def updateConnectionStatus_def fetch_failed_def
             split: fetched.splits)
  show ?thesis
    by (simp add: eq)
qed

theorem updateData_failure_keeps_rendered_state_witness:
  "fetch_failed (Rejected :: stats_payload fetched)
   \<and> isConnected polled_page
   \<and> length (objects_table_body polled_page) = 3
   \<and> updateData Rejected example_detected ''10:15:08'' polled_page =
       (None, polled_page\<lparr>connection_status := ''status-indicator'', isConnected := False\<rparr>)
   \<and> length (objects_table_body (snd (updateData Rejected example_detected ''10:15:08'' polled_page))) = 3"
  using updateData_failure_keeps_rendered_state
          [of Rejected example_detected "''10:15:08''" polled_page]
  by (simp add: fetch_failed_def example_defs updateData_def updateData_try_def
                updateObjectsTable_Some Let_def updateConnectionStatus_def)

text \<open>
  C2 (as stated). After a poll in which both requests succeed with a well-formed
  payload, the table has one row per fetched object, but the text of the count badge
  is not the count: for the three example objects it is \<^verbatim>\<open>3 objects\<close>, not
  \<^verbatim>\<open>3\<close>.
\<close>

theorem badge_text_is_not_the_count:
  "length (objects_table_body
             (snd (updateData example_stats example_detected ''10:15:05'' example_page))) = 3
   \<and> object_count_badge
         (snd (updateData example_stats example_detected ''10:15:05'' example_page))
       = ''3 objects''
   \<and> object_count_badge
         (snd (updateData example_stats example_detected ''10:15:05'' example_page))
       \<noteq> show_nat (length example_objects)"
  by code_simp

text \<open>
  C2 (amended). After a poll in which both requests succeed with a well-formed
  payload, the table body holds exactly one row per object of the fetched list, in the
  list's order, and the text of the count badge is the decimal count followed by
  \<^verbatim>\<open> objects\<close>.
\<close>

theorem updateData_success_renders_objects:
  assumes "fs = Resolved rs" and "ok rs" and "json rs = Some statsData"
    and "fo = Resolved ro" and "ok ro" and "json ro = Some objectsData"
    and "objects objectsData = Some os"
  shows "fst (updateData fs fo now s) = None
         \<and> isConnected (snd (updateData fs fo now s))
         \<and> length (objects_table_body (snd (updateData fs fo now s))) = length os
         \<and> objects_table_body (snd (updateData fs fo now s)) = map render_row os
         \<and> object_count_badge (snd (updateData fs fo now s))
             = show_nat (length os) @ '' objects''"
  using assms
  by (simp add: updateData_def updateData_try_def updateObjectsTable_Some
                updateConnectionStatus_def Let_def split: option.splits)

theorem updateData_success_renders_objects_witness:
  "length (objects_table_body
             (snd (updateData example_stats example_detected ''10:15:05'' example_page)))
     = length example_objects
   \<and> object_count_badge
         (snd (updateData example_stats example_detected ''10:15:05'' example_page))
       = show_nat (length example_objects) @ '' objects''"
  using updateData_success_renders_objects
          [of example_stats
              "Response True (Some \<lparr>is_running = True,
                 analytics = Some [(''day'', \<lparr>labels = [''00:00''], data = [12]\<rparr>)]\<rparr>)"
              "\<lparr>is_running = True,
                 analytics = Some [(''day'', \<lparr>labels = [''00:00''], data = [12]\<rparr>)]\<rparr>"
              example_detected
              "Response True (Some \<lparr>active_objects = 2, objects = Some example_objects\<rparr>)"
              "\<lparr>active_objects = 2, objects = Some example_objects\<rparr>"
              example_objects "''10:15:05''" example_page]
  by (simp add: example_stats_def example_detected_def)

subsection \<open>The objects table\<close>

text \<open>
  C7. The confidence class of every rendered row is a function of the object's
  \<^verbatim>\<open>confidence_score\<close> alone, with inclusive lower bounds: a score of at least 80 gives
  \<^verbatim>\<open>confidence-high\<close>, a score of at least 60 and below 80 gives
  \<^verbatim>\<open>confidence-medium\<close>, every lower score gives \<^verbatim>\<open>confidence-low\<close>. So 79 and
  60 are medium and 80 is high.
\<close>

theorem rendered_confidence_tier:
  assumes "i < length os"
  shows "(let score = confidence_score (os ! i);
              cls = row_confidence_class
                      (objects_table_body (snd (updateObjectsTable (Some os) s)) ! i)
          in (80 \<le> score \<longrightarrow> cls = ''confidence-high'')
             \<and> (60 \<le> score \<and> score < 80 \<longrightarrow> cls = ''confidence-medium'')
             \<and> (score < 60 \<longrightarrow> cls = ''confidence-low''))
         \<and> confidenceClass 79 = ''confidence-medium''
         \<and> confidenceClass 60 = ''confidence-medium''
         \<and> confidenceClass 80 = ''confidence-high''"
  using assms
  by (simp add: updateObjectsTable_Some render_row_def confidenceClass_def Let_def)

theorem rendered_confidence_tier_witness:
  "map row_confidence_class
     (objects_table_body (snd (updateObjectsTable (Some example_objects) example_page)))
   = [''confidence-medium'', ''confidence-medium'', ''confidence-high'']
   \<and> map confidence_score example_objects = [79, 60, 80]"
  using rendered_confidence_tier [of 0 example_objects example_page]
        rendered_confidence_tier [of 1 example_objects example_page]
        rendered_confidence_tier [of 2 example_objects example_page]
  by (simp add: example_objects_def updateObjectsTable_Some render_row_def Let_def)

text \<open>
  C9. Rendering the empty list is idempotent: a second call of
  \<^verbatim>\<open>updateObjectsTable([])\<close> returns the page of the first call, on which the
  empty-state message is displayed, the table body has no row and the badge reads
  \<^verbatim>\<open>0 objects\<close>.
\<close>

theorem updateObjectsTable_empty_idempotent:
  "updateObjectsTable (Some []) (snd (updateObjectsTable (Some []) s))
     = updateObjectsTable (Some []) s
   \<and> fst (updateObjectsTable (Some []) s) = None
   \<and> no_objects_display (snd (updateObjectsTable (Some []) s)) = ''block''
   \<and> objects_table_body (snd (updateObjectsTable (Some []) s)) = []
   \<and> object_count_badge (snd (updateObjectsTable (Some []) s)) = ''0 objects''"
proof -
  have "show_nat 0 = ''0''"
    by code_simp
  then show ?thesis
    by (simp add: updateObjectsTable_Some)
qed

theorem updateObjectsTable_empty_idempotent_witness:
  "updateObjectsTable (Some []) (snd (updateObjectsTable (Some []) polled_page))
     = updateObjectsTable (Some []) polled_page
   \<and> objects_table_body polled_page \<noteq> []
   \<and> objects_table_body (snd (updateObjectsTable (Some []) polled_page)) = []"
  using updateObjectsTable_empty_idempotent [of polled_page]
  by (simp add: example_defs updateData_def updateData_try_def updateObjectsTable_Some
                updateConnectionStatus_def Let_def)

subsection \<open>Commands\<close>

lemma updateData_never_throws: "fst (updateData fs fo now s) = None"
  by (simp add: updateData_def split: prod.splits option.splits)

lemma updateObjectsTable_notifications:
  "notifications (snd (updateObjectsTable objs s)) = notifications s"
proof (cases objs)
  case None
  then show ?thesis by (simp add: updateObjectsTable_def)
next
  case (Some os)
  then show ?thesis by (simp add: updateObjectsTable_Some)
qed

lemma updateData_try_notifications:
  "notifications (snd (updateData_try fs fo now s)) = notifications s"
proof -
  have tbl: "\<And>objs t e t'. updateObjectsTable objs t = (e, t') \<Longrightarrow> notifications t' = notifications t"
    using updateObjectsTable_notifications by (metis snd_conv)
  show ?thesis
    by (auto simp: updateData_try_def updateConnectionStatus_def Let_def
             split: fetched.splits option.splits prod.splits dest!: tbl)
qed

lemma updateData_notifications:
  "notifications (snd (updateData fs fo now s)) = notifications s"
proof (cases "updateData_try fs fo now s")
  case (Pair e t)
  then have "notifications t = notifications s"
    using updateData_try_notifications [of fs fo now s] by simp
  with Pair show ?thesis
    by (cases e) (simp_all add: updateData_def updateConnectionStatus_def)
qed

text \<open>
  C10. Whatever the two poll requests do, \<^verbatim>\<open>updateData\<close> resolves without an
  exception, so \<^verbatim>\<open>refreshData\<close> never runs its \<^verbatim>\<open>catch\<close>: it starts the exit of
  the notifications already shown and adds exactly one notification, the success
  notification \<^verbatim>\<open>Data refreshed successfully!\<close>; the failure notification is never
  the one it adds.
\<close>

theorem refreshData_always_reports_success:
  "fst (updateData fs fo now s) = None
   \<and> notifications (refreshData fs fo now s)
       = map (\<lambda>n. n\<lparr>exiting := True\<rparr>) (notifications s)
         @ [\<lparr>note_message = msg_refresh_ok, note_type = ''success'', exiting = False\<rparr>]
   \<and> last (notifications (refreshData fs fo now s))
       \<noteq> \<lparr>note_message = msg_refresh_failed, note_type = ''error'', exiting = False\<rparr>"
proof -
  let ?s1 = "s\<lparr>refresh_btn :=
                 \<lparr>disabled = True,
                  btn_classList = classes_add ''loading'' (btn_classList (refresh_btn s)),
                  innerHTML = ''Refreshing...''\<rparr>\<rparr>"
  obtain t where t: "updateData fs fo now ?s1 = (None, t)"
    using updateData_never_throws [of fs fo now ?s1] by (cases "updateData fs fo now ?s1") simp
  have nt: "notifications t = notifications s"
    using updateData_notifications [of fs fo now ?s1] t by simp
  have eq: "notifications (refreshData fs fo now s)
       = map (\<lambda>n. n\<lparr>exiting := True\<rparr>) (notifications s)
         @ [\<lparr>note_message = msg_refresh_ok, note_type = ''success'', exiting = False\<rparr>]"
    by (simp add: refreshData_def Let_def t showNotification_def nt)
  show ?thesis
    by (simp add: updateData_never_throws eq)
qed

theorem refreshData_always_reports_success_witness:
  "fetch_failed (Rejected :: stats_payload fetched)
   \<and> fetch_failed (Rejected :: objects_payload fetched)
   \<and> notifications (refreshData Rejected Rejected ''10:15:09'' example_page)
       = [\<lparr>note_message = msg_refresh_ok, note_type = ''success'', exiting = False\<rparr>]"
  using refreshData_always_reports_success [of Rejected Rejected "''10:15:09''" example_page]
  by (simp add: fetch_failed_def example_page_def)

text \<open>
  C6. When the user has confirmed the reset and \<^verbatim>\<open>POST /reset-count\<close> resolves
  with a result whose \<^verbatim>\<open>success\<close> is false, \<^verbatim>\<open>resetCount\<close> adds the failure
  notification \<^verbatim>\<open>Failed to reset data\<close> and leaves the table (rows, empty-state
  message, count badge) and the chart (labels, values, colours, redraws) as they were.
\<close>

theorem resetCount_backend_failure_keeps_display:
  assumes "f = Resolved r" and "json r = Some result" and "\<not> success result"
  shows "last (notifications (resetCount True f s))
           = \<lparr>note_message = msg_reset_failed, note_type = ''error'', exiting = False\<rparr>
         \<and> objects_table_body (resetCount True f s) = objects_table_body s
         \<and> no_objects_display (resetCount True f s) = no_objects_display s
         \<and> object_count_badge (resetCount True f s) = object_count_badge s
         \<and> chart_labels (resetCount True f s) = chart_labels s
         \<and> chart_data (resetCount True f s) = chart_data s
         \<and> chart_backgroundColor (resetCount True f s) = chart_backgroundColor s
         \<and> chart_borderColor (resetCount True f s) = chart_borderColor s
         \<and> chart_updates (resetCount True f s) = chart_updates s"
  using assms
  by (simp add: resetCount_def resetCount_try_def showNotification_def Let_def)

theorem resetCount_backend_failure_keeps_display_witness:
  "\<not> success \<lparr>success = False, message = None\<rparr>
   \<and> length (objects_table_body
               (resetCount True
                  (Resolved (Response True (Some \<lparr>success = False, message = None\<rparr>)))
                  polled_page)) = 3
   \<and> chart_labels
        (resetCount True
           (Resolved (Response True (Some \<lparr>success = False, message = None\<rparr>)))
           polled_page) = [''00:00'']
   \<and> map note_type
        (notifications
           (resetCount True
              (Resolved (Response True (Some \<lparr>success = False, message = None\<rparr>)))
              polled_page)) = [''error'']"
  using resetCount_backend_failure_keeps_display
          [of "Resolved (Response True (Some \<lparr>success = False, message = None\<rparr>))"
              "Response True (Some \<lparr>success = False, message = None\<rparr>)"
              "\<lparr>success = False, message = None\<rparr>" polled_page]
  by (simp add: example_defs updateData_def updateData_try_def updateObjectsTable_Some
                updateConnectionStatus_def Let_def resetCount_def resetCount_try_def
                showNotification_def)

subsection \<open>Health check\<close>

text \<open>
  C5 (as stated). A non-healthy payload does not mark the UI disconnected: on a
  connected page, a \<^verbatim>\<open>/health\<close> response whose status is \<^verbatim>\<open>degraded\<close> makes
  \<^verbatim>\<open>healthCheck\<close> return false and leaves the page connected.
\<close>

theorem healthCheck_unhealthy_payload_stays_connected:
  "healthCheck (Resolved (Response True (Some (HealthValue (Some ''degraded'')))))
     (updateConnectionStatus True example_page)
   = (False, updateConnectionStatus True example_page)
   \<and> isConnected
        (snd (healthCheck
                (Resolved (Response True (Some (HealthValue (Some ''degraded'')))))
                (updateConnectionStatus True example_page)))
   \<and> connection_status
        (snd (healthCheck
                (Resolved (Response True (Some (HealthValue (Some ''degraded'')))))
                (updateConnectionStatus True example_page)))
       = ''status-indicator connected''"
  by (simp add: healthCheck_def updateConnectionStatus_def example_page_def)

text \<open>
  C5 (amended). For every outcome of \<^verbatim>\<open>healthCheck\<close>: if the \<^verbatim>\<open>/health\<close> body
  parses to a value whose status is \<^verbatim>\<open>healthy\<close>, the UI is marked connected and
  the function returns true. On every failure that throws, that is a rejected request,
  a body that does not parse, or a body that parses to \<^verbatim>\<open>null\<close>, the UI is marked
  disconnected and the function returns false. The one remaining outcome, a body that
  parses to a value other than \<^verbatim>\<open>null\<close> whose status is not \<^verbatim>\<open>healthy\<close>, makes
  the function return false and leaves the connection state as it was.
\<close>

theorem healthCheck_outcomes:
  "(f = Resolved r \<and> json r = Some (HealthValue (Some ''healthy''))
      \<longrightarrow> healthCheck f s = (True, updateConnectionStatus True s)
          \<and> isConnected (snd (healthCheck f s)))
   \<and> (f = Rejected
       \<or> (f = Resolved r \<and> json r = None)
       \<or> (f = Resolved r \<and> json r = Some HealthNull)
      \<longrightarrow> healthCheck f s = (False, updateConnectionStatus False s)
          \<and> \<not> isConnected (snd (healthCheck f s)))
   \<and> (f = Resolved r \<and> json r = Some (HealthValue st) \<and> st \<noteq> Some ''healthy''
      \<longrightarrow> healthCheck f s = (False, s))
   \<and> (healthCheck f s = (True, updateConnectionStatus True s)
       \<or> healthCheck f s = (False, updateConnectionStatus False s)
       \<or> healthCheck f s = (False, s))"
proof -
  have healthy: "f = Resolved r \<and> json r = Some (HealthValue (Some ''healthy''))
      \<longrightarrow> healthCheck f s = (True, updateConnectionStatus True s)
          \<and> isConnected (snd (healthCheck f s))"
    by (simp add: healthCheck_def updateConnectionStatus_def)
  have thrown: "f = Rejected
       \<or> (f = Resolved r \<and> json r = None)
       \<or> (f = Resolved r \<and> json r = Some HealthNull)
      \<longrightarrow> healthCheck f s = (False, updateConnectionStatus False s)
          \<and> \<not> isConnected (snd (healthCheck f s))"
    by (auto simp: healthCheck_def updateConnectionStatus_def)
  have other: "f = Resolved r \<and> json r = Some (HealthValue st) \<and> st \<noteq> Some ''healthy''
      \<longrightarrow> healthCheck f s = (False, s)"
    by (simp add: healthCheck_def)
  have total: "healthCheck f s = (True, updateConnectionStatus True s)
       \<or> healthCheck f s = (False, updateConnectionStatus False s)
       \<or> healthCheck f s = (False, s)"
    by (simp add: healthCheck_def split: fetched.splits option.splits health_payload.splits)
  from healthy thrown other total show ?thesis
    by blast
qed

theorem healthCheck_outcomes_witness:
  "isConnected
     (snd (healthCheck (Resolved (Response True (Some (HealthValue (Some ''healthy'')))))
             (updateConnectionStatus False example_page)))
   \<and> \<not> isConnected (snd (healthCheck Rejected example_page))
   \<and> \<not> isConnected (snd (healthCheck (Resolved (Response True None)) example_page))
   \<and> \<not> isConnected (snd (healthCheck (Resolved (Response True (Some HealthNull))) example_page))
   \<and> healthCheck (Resolved (Response False (Some (HealthValue None)))) example_page
       = (False, example_page)"
  using healthCheck_outcomes
          [of "Resolved (Response True (Some (HealthValue (Some ''healthy''))))"
              "Response True (Some (HealthValue (Some ''healthy'')))"
              "updateConnectionStatus False example_page" None]
        healthCheck_outcomes
          [of Rejected "Response True None" example_page None]
        healthCheck_outcomes
          [of "Resolved (Response True None)" "Response True None" example_page None]
        healthCheck_outcomes
          [of "Resolved (Response True (Some HealthNull))" "Response True (Some HealthNull)"
              example_page None]
        healthCheck_outcomes
          [of "Resolved (Response False (Some (HealthValue None)))"
              "Response False (Some (HealthValue None))" example_page None]
  by (simp add: updateConnectionStatus_def)

subsection \<open>Periods\<close>

lemma changePeriod_currentPeriod: "currentPeriod (snd (changePeriod p s)) = p"
  by (simp add: changePeriod_def Let_def showNotification_def split: option.splits)

lemma indexOf_periods:
  "indexOf periods p =
     (if p = ''day'' then 0 else if p = ''week'' then 1 else if p = ''month'' then 2 else - 1)"
  by (auto simp: periods_def Let_def)

lemma swipe_left_step:
  assumes "x0 - x1 > 100"
  shows "currentPeriod (swipe x0 x1 s) =
           (if currentPeriod s = ''day'' then ''week''
            else if currentPeriod s = ''week'' then ''month'' else ''day'')"
proof -
  have gesture: "handleGesture (s\<lparr>touchStartX := x0, touchEndX := x1\<rparr>) =
      changePeriod (at_index periods ((indexOf periods (currentPeriod s) + 1) mod 3))
        (s\<lparr>touchStartX := x0, touchEndX := x1\<rparr>)"
    using assms by (simp add: handleGesture_def Let_def periods_def)
  have "at_index periods ((indexOf periods (currentPeriod s) + 1) mod 3) =
          (if currentPeriod s = ''day'' then ''week''
            else if currentPeriod s = ''week'' then ''month'' else ''day'')"
    by (simp add: indexOf_periods) (simp add: at_index_def periods_def)
  then show ?thesis
    by (simp add: swipe_def touchend_def touchstart_def gesture changePeriod_currentPeriod)
qed

text \<open>
  C8. A swipe to the left of more than 100 pixels moves the period one step along the
  cycle day, week, month, day. Starting from \<^verbatim>\<open>day\<close>, two such swipes in a row leave
  \<^verbatim>\<open>currentPeriod\<close> at \<^verbatim>\<open>month\<close>, and a third one returns to \<^verbatim>\<open>day\<close>.
\<close>

theorem double_swipe_left_from_day:
  assumes "currentPeriod s = ''day''"
    and "x0 - x1 > 100" and "x2 - x3 > 100" and "x4 - x5 > 100"
  shows "currentPeriod (swipe x0 x1 s) = ''week''
         \<and> currentPeriod (swipe x2 x3 (swipe x0 x1 s)) = ''month''
         \<and> currentPeriod (swipe x4 x5 (swipe x2 x3 (swipe x0 x1 s))) = ''day''"
  using assms by (simp add: swipe_left_step)

theorem double_swipe_left_from_day_witness:
  "currentPeriod example_page = ''day''
   \<and> (300::real) - 150 > 100 \<and> (320::real) - 90 > 100 \<and> (250::real) - 10 > 100
   \<and> currentPeriod (swipe 320 90 (swipe 300 150 example_page)) = ''month''
   \<and> fst (touchend 90 (touchstart 320 (swipe 300 150 example_page))) = None"
  using double_swipe_left_from_day [of example_page 300 150 320 90 250 10]
  by (simp add: example_page_def) code_simp

lemma querySelector_period_Some:
  "querySelector_period p es = Some i \<Longrightarrow> i < length es \<and> data_period (es ! i) = Some p"
proof (induction es arbitrary: i)
  case Nil
  then show ?case by simp
next
  case (Cons e es)
  show ?case
  proof (cases "data_period e = Some p")
    case True
    with Cons.prems show ?thesis by simp
  next
    case False
    with Cons.prems obtain j where "querySelector_period p es = Some j" and "i = Suc j"
      by auto
    with Cons.IH [of j] show ?thesis by simp
  qed
qed

lemma querySelector_period_map:
  assumes "\<And>e. data_period (g e) = data_period e"
  shows "querySelector_period p (map g es) = querySelector_period p es"
  by (induction es) (simp_all add: assms)

lemma filter_update_single:
  "\<forall>e \<in> set xs. \<not> P e \<Longrightarrow> i < length xs \<Longrightarrow> P x \<Longrightarrow> length (filter P (xs[i := x])) = 1"
proof (induction xs arbitrary: i)
  case Nil
  then show ?case by simp
next
  case (Cons y ys)
  show ?case
  proof (cases i)
    case 0
    with Cons.prems show ?thesis by simp
  next
    case (Suc j)
    with Cons.prems Cons.IH [of j] show ?thesis by simp
  qed
qed

lemma generateSampleData_periods:
  "generateSampleData p =
     (if p = ''day'' then sample_day else if p = ''week'' then sample_week
      else if p = ''month'' then sample_month else sample_day)"
  by (simp add: generateSampleData_def sample_table_def)

text \<open>
  C3. For \<open>p\<close> one of \<^verbatim>\<open>day\<close>, \<^verbatim>\<open>week\<close>, \<^verbatim>\<open>month\<close>, on a page whose first
  element with \<^verbatim>\<open>data-period\<close> equal to \<open>p\<close> is a chart control button,
  \<^verbatim>\<open>changePeriod(p)\<close> returns without an exception; afterwards \<^verbatim>\<open>currentPeriod\<close> is
  \<open>p\<close>, the chart's labels and values are the sample arrays written in
  \<^verbatim>\<open>generateSampleData\<close> for \<open>p\<close> (so neither is empty), and exactly one chart control
  button carries the class \<^verbatim>\<open>active\<close>.
\<close>

theorem changePeriod_valid_period:
  assumes "p \<in> set periods"
    and "querySelector_period p (elements s) = Some i"
    and "has_class ''chart-control-btn'' (elements s ! i)"
  shows "fst (changePeriod p s) = None
         \<and> currentPeriod (snd (changePeriod p s)) = p
         \<and> chart_labels (snd (changePeriod p s)) = labels (generateSampleData p)
         \<and> chart_data (snd (changePeriod p s)) = data (generateSampleData p)
         \<and> generateSampleData p =
             (if p = ''day'' then sample_day else if p = ''week'' then sample_week
              else sample_month)
         \<and> chart_labels (snd (changePeriod p s)) \<noteq> []
         \<and> chart_data (snd (changePeriod p s)) \<noteq> []
         \<and> length (filter (\<lambda>e. has_class ''chart-control-btn'' e \<and> has_class ''active'' e)
                     (elements (snd (changePeriod p s)))) = 1"
proof -
  let ?g = "\<lambda>btn. if has_class ''chart-control-btn'' btn
                   then classList_remove ''active'' btn else btn"
  let ?es = "map ?g (elements s)"
  let ?P = "\<lambda>e. has_class ''chart-control-btn'' e \<and> has_class ''active'' e"
  have valid: "p = ''day'' \<or> p = ''week'' \<or> p = ''month''"
    using assms(1) by (simp add: periods_def)
  have "\<And>e. data_period (?g e) = data_period e"
    by (simp add: classList_remove_def)
  then have q: "querySelector_period p ?es = Some i"
    using querySelector_period_map [of ?g p "elements s"] assms(2) by simp
  have i: "i < length (elements s)"
    using querySelector_period_Some [OF assms(2)] by simp
  obtain theme where theme: "map_of colorThemes p = Some theme"
    using valid by (auto simp: colorThemes_def)
  have none: "\<forall>e \<in> set ?es. \<not> ?P e"
    by (auto simp: has_class_def classList_remove_def)
  have "?P (classList_add ''active'' (?es ! i))"
    using i assms(3) by (simp add: has_class_def classList_add_def classList_remove_def)
  then have one: "length (filter ?P (?es[i := classList_add ''active'' (?es ! i)])) = 1"
    using filter_update_single [of ?es ?P i] none i by simp
  have sample: "labels (generateSampleData p) \<noteq> [] \<and> data (generateSampleData p) \<noteq> []"
    using valid
    by (auto simp: generateSampleData_periods sample_day_def sample_week_def sample_month_def)
  have gen: "generateSampleData p =
             (if p = ''day'' then sample_day else if p = ''week'' then sample_week
              else sample_month)"
    using valid by (auto simp: generateSampleData_periods)
  have res: "changePeriod p s =
     (None,
      showNotification (glyph_bar_chart @ '' Switched to '' @ capitalize p @ '' view'') ''info''
        (s\<lparr>currentPeriod := p,
           elements := ?es[i := classList_add ''active'' (?es ! i)],
           chart_backgroundColor := background theme,
           chart_borderColor := border theme,
           chart_labels := labels (generateSampleData p),
           chart_data := data (generateSampleData p),
           chart_updates := chart_updates s @ [Some ''active'']\<rparr>))"
    using q theme by (simp add: changePeriod_def Let_def)
  show ?thesis
    using one sample gen by (simp add: res showNotification_def)
qed

theorem changePeriod_valid_period_witness:
  "''week'' \<in> set periods
   \<and> querySelector_period ''week'' (elements example_page) = Some 1
   \<and> has_class ''chart-control-btn'' (elements example_page ! 1)
   \<and> currentPeriod (snd (changePeriod ''week'' example_page)) = ''week''
   \<and> chart_data (snd (changePeriod ''week'' example_page))
       = [234, 187, 298, 345, 412, 389, 267]
   \<and> map (has_class ''active'') (elements (snd (changePeriod ''week'' example_page)))
       = [False, True, False]"
proof -
  have h1: "''week'' \<in> set periods"
    by (simp add: periods_def)
  have h2: "querySelector_period ''week'' (elements example_page) = Some 1"
    by (simp add: example_page_def)
  have h3: "has_class ''chart-control-btn'' (elements example_page ! 1)"
    by (simp add: example_page_def has_class_def)
  have "map (has_class ''active'') (elements (snd (changePeriod ''week'' example_page)))
       = [False, True, False]"
    by (simp add: changePeriod_def example_page_def Let_def has_class_def classList_remove_def
                  classList_add_def colorThemes_def showNotification_def)
  then show ?thesis
    using changePeriod_valid_period [OF h1 h2 h3] h1 h2 h3
    by (simp add: sample_week_def)
qed

subsection \<open>Timers and page visibility\<close>

lemma changePeriod_timers:
  "intervals (snd (changePeriod p s)) = intervals s
   \<and> updateInterval (snd (changePeriod p s)) = updateInterval s
   \<and> next_handle (snd (changePeriod p s)) = next_handle s"
  by (simp add: changePeriod_def Let_def showNotification_def split: option.splits)

lemma initialize_timers:
  assumes "intervals s0 = []" and "updateInterval s0 = None" and "0 < next_handle s0"
    and "initialize s0 = (None, calls, s)"
  shows "intervals s =
           [\<lparr>handle = next_handle s0, every_ms = 3000, callback = UpdateData\<rparr>,
            \<lparr>handle = Suc (next_handle s0), every_ms = 15000, callback = HealthCheck\<rparr>]
         \<and> updateInterval s = Some (next_handle s0)
         \<and> next_handle s = Suc (Suc (next_handle s0))
         \<and> calls = [UpdateData]"
proof (cases "changePeriod ''day'' s0")
  case (Pair e s1)
  with assms(4) have e: "e = None"
    by (cases e) (simp_all add: initialize_def)
  have s1: "intervals s1 = [] \<and> updateInterval s1 = None \<and> next_handle s1 = next_handle s0"
    using changePeriod_timers [of "''day''" s0] Pair assms(1,2) by simp
  show ?thesis
    using assms(4) s1
    by (auto simp: initialize_def Pair e startAutoReconnect_def clear_updateInterval_def
                   setInterval_def Let_def)
qed

lemma initialize_timer_inv:
  assumes "intervals s0 = []" and "updateInterval s0 = None" and "0 < next_handle s0"
    and "initialize s0 = (None, calls, s)"
  shows "timer_inv s"
  using initialize_timers [OF assms] assms(3) by (simp add: timer_inv_def)

lemma visibilitychange_timer_inv:
  assumes "timer_inv t"
  shows "timer_inv (snd (visibilitychange hidden t))"
proof -
  obtain h where h: "updateInterval t = Some h" "h \<noteq> 0"
    using assms by (auto simp: timer_inv_def split: option.splits)
  show ?thesis
    using assms h
    by (cases hidden)
       (auto simp: timer_inv_def visibilitychange_def clear_updateInterval_def clearInterval_def
                   startAutoReconnect_def setInterval_def Let_def)
qed

lemma visibilitychange_keeps_healthCheck:
  assumes "timer_inv t"
  shows "live HealthCheck (snd (visibilitychange hidden t)) = live HealthCheck t"
proof -
  obtain h where h: "updateInterval t = Some h" "h \<noteq> 0"
    using assms by (auto simp: timer_inv_def split: option.splits)
  have keep: "filter (\<lambda>x. callback x = HealthCheck) (filter (\<lambda>x. handle x \<noteq> h) (intervals t))
              = filter (\<lambda>x. callback x = HealthCheck) (intervals t)"
    using assms h by (auto simp: timer_inv_def intro: filter_cong)
  show ?thesis
    using h keep
    by (cases hidden)
       (simp_all add: live_def visibilitychange_def clear_updateInterval_def clearInterval_def
                      startAutoReconnect_def setInterval_def Let_def)
qed

lemma clear_removes_polls:
  assumes "timer_inv t" and "updateInterval t = Some h"
  shows "filter (\<lambda>x. callback x = UpdateData) (filter (\<lambda>x. handle x \<noteq> h) (intervals t)) = []"
  using assms by (auto simp: timer_inv_def filter_empty_conv)

lemma hidden_cancels_poll:
  assumes "timer_inv t"
  shows "fst (visibilitychange True t) = []
         \<and> live UpdateData (snd (visibilitychange True t)) = []"
proof -
  obtain h where h: "updateInterval t = Some h" "h \<noteq> 0"
    using assms by (auto simp: timer_inv_def split: option.splits)
  show ?thesis
    using h clear_removes_polls [OF assms h(1)]
    by (simp add: live_def visibilitychange_def clear_updateInterval_def clearInterval_def)
qed

lemma visible_restarts_poll:
  assumes "timer_inv t"
  shows "fst (visibilitychange False t) = [UpdateData]
         \<and> live UpdateData (snd (visibilitychange False t))
             = [\<lparr>handle = next_handle t, every_ms = 3000, callback = UpdateData\<rparr>]"
proof -
  obtain h where h: "updateInterval t = Some h" "h \<noteq> 0"
    using assms by (auto simp: timer_inv_def split: option.splits)
  show ?thesis
    using h clear_removes_polls [OF assms h(1)]
    by (simp add: live_def visibilitychange_def clear_updateInterval_def clearInterval_def
                  startAutoReconnect_def setInterval_def Let_def)
qed

lemma visibility_changes_inv:
  "timer_inv s \<Longrightarrow>
     timer_inv (visibility_changes hs s)
     \<and> live HealthCheck (visibility_changes hs s) = live HealthCheck s"
proof (induction hs arbitrary: s)
  case Nil
  then show ?case by simp
next
  case (Cons hidden hs)
  have "timer_inv (snd (visibilitychange hidden s))"
    using Cons.prems by (rule visibilitychange_timer_inv)
  from Cons.IH [OF this] visibilitychange_keeps_healthCheck [OF Cons.prems, of hidden]
  show ?case by simp
qed

text \<open>
  C4 (as stated). Hiding the page does not cancel both timers: after \<^verbatim>\<open>initialize\<close>
  on the example page and one \<^verbatim>\<open>visibilitychange\<close> with the page hidden, the
  15-second health-check timer is still in the browser's table of timers.
\<close>

theorem hidden_page_keeps_health_timer:
  "fst (initialize example_page) = None
   \<and> map callback (intervals (snd (snd (initialize example_page)))) = [UpdateData, HealthCheck]
   \<and> map callback
        (intervals (snd (visibilitychange True (snd (snd (initialize example_page))))))
       = [HealthCheck]
   \<and> map every_ms
        (intervals (snd (visibilitychange True (snd (snd (initialize example_page))))))
       = [15000]"
  by (simp add: initialize_def changePeriod_def example_page_def Let_def has_class_def
                classList_remove_def classList_add_def colorThemes_def showNotification_def
                startAutoReconnect_def clear_updateInterval_def clearInterval_def
                setInterval_def visibilitychange_def)

text \<open>
  C4 (amended). After \<^verbatim>\<open>initialize\<close> and any run of visibility changes: when the
  page becomes hidden, the poll timer is canceled and the listener starts no poll, so
  no poll timer is live while the page stays hidden; when the page becomes visible,
  the listener starts one poll at once and exactly one poll timer, of 3000 ms, is
  live. The 15000 ms health-check timer set by \<^verbatim>\<open>initialize\<close> is never canceled: it
  stays live through every visibility change, hidden or visible.
\<close>

theorem visibility_changes_timers:
  assumes "intervals s0 = []" and "updateInterval s0 = None" and "0 < next_handle s0"
    and "initialize s0 = (None, calls, s)"
  shows "map every_ms (live UpdateData s) = [3000]
         \<and> map every_ms (live HealthCheck s) = [15000]
         \<and> fst (visibilitychange True (visibility_changes hs s)) = []
         \<and> live UpdateData (snd (visibilitychange True (visibility_changes hs s))) = []
         \<and> live HealthCheck (snd (visibilitychange True (visibility_changes hs s)))
             = live HealthCheck s
         \<and> fst (visibilitychange False (visibility_changes hs s)) = [UpdateData]
         \<and> map every_ms (live UpdateData (snd (visibilitychange False (visibility_changes hs s))))
             = [3000]
         \<and> live HealthCheck (snd (visibilitychange False (visibility_changes hs s)))
             = live HealthCheck s"
proof -
  let ?t = "visibility_changes hs s"
  have inv: "timer_inv s"
    using assms by (rule initialize_timer_inv)
  have t: "timer_inv ?t" and th: "live HealthCheck ?t = live HealthCheck s"
    using visibility_changes_inv [OF inv, of hs] by simp_all
  have start: "map every_ms (live UpdateData s) = [3000]
               \<and> map every_ms (live HealthCheck s) = [15000]"
    using initialize_timers [OF assms] by (simp add: live_def)
  show ?thesis
    using start hidden_cancels_poll [OF t] visible_restarts_poll [OF t]
          visibilitychange_keeps_healthCheck [OF t] th
    by simp
qed

theorem visibility_changes_timers_witness:
  "intervals example_page = [] \<and> updateInterval example_page = None
   \<and> 0 < next_handle example_page
   \<and> fst (initialize example_page) = None
   \<and> live UpdateData
        (snd (visibilitychange True
                (visibility_changes [True, False, False]
                   (snd (snd (initialize example_page)))))) = []
   \<and> map every_ms
        (live HealthCheck
           (snd (visibilitychange True
                   (visibility_changes [True, False, False]
                      (snd (snd (initialize example_page))))))) = [15000]
   \<and> map every_ms
        (live UpdateData
           (snd (visibilitychange False
                   (visibility_changes [True, False, False]
                      (snd (snd (initialize example_page))))))) = [3000]"
proof -
  have h1: "intervals example_page = []" and h2: "updateInterval example_page = None"
    and h3: "0 < next_handle example_page"
    by (simp_all add: example_page_def)
  have e: "fst (initialize example_page) = None"
    by (simp add: initialize_def changePeriod_def example_page_def Let_def has_class_def
                  classList_remove_def classList_add_def colorThemes_def showNotification_def
                  split: prod.splits)
  then have h4: "initialize example_page
                   = (None, fst (snd (initialize example_page)), snd (snd (initialize example_page)))"
    by (metis prod.collapse)
  show ?thesis
    using visibility_changes_timers [OF h1 h2 h3 h4, of "[True, False, False]"] h1 h2 h3 e
    by simp
qed

end
